theory Spec2Isabelle
  imports Main
begin

section \<open>The second-level build script of the Cretonne meta language\<close>

text \<open>
  The script \<^verbatim>\<open>lib/cretonne/meta/build.py\<close> is the driver of the source generator:
  \<^verbatim>\<open>
  parser = argparse.ArgumentParser(description='Generate sources for Cretonne.')
  parser.add_argument('--out-dir', help='set output directory')

  args = parser.parse_args()
  out_dir = args.out_dir

  isas = isa.all_isas()

  gen_types.generate(out_dir)
  gen_instr.generate(isas, out_dir)
  gen_settings.generate(isas, out_dir)
  gen_encoding.generate(isas, out_dir)
  gen_build_deps.generate()
  \<close>
  The modules \<^verbatim>\<open>isa\<close>, \<^verbatim>\<open>gen_types\<close>, \<^verbatim>\<open>gen_instr\<close>, \<^verbatim>\<open>gen_settings\<close>,
  \<^verbatim>\<open>gen_encoding\<close> and \<^verbatim>\<open>gen_build_deps\<close> are imported by the script and their bodies are
  not part of it; \<^verbatim>\<open>argparse\<close> is Python's library. The embedding takes them as a record
  of functions and models the script as a computation over an explicit world, with every
  exception as a value. The record stands for the modules once they are loaded: the
  \<^verbatim>\<open>import\<close> statements at the head of the script have run, and the model starts at the
  first statement after them. The world is
  whatever the stages act on (the output directory on disk, the standard output); each
  stage maps a world to its outcome and the world it leaves, also when it raises.
\<close>

subsection \<open>Exceptions and the exit status\<close>

text \<open>
  Modelled from the spec: the error taxonomy of the stages (section 7); the classes
  themselves are raised inside the imported modules. \<open>OtherError\<close> stands for any other
  error, that is any other subclass of Python's \<^verbatim>\<open>Exception\<close>. \<open>SystemExit\<close>, with an integer
  code, is what \<^verbatim>\<open>argparse\<close> raises to end the process (code 0 after printing the help, code
  2 on a usage error). An interrupt from outside (\<^verbatim>\<open>KeyboardInterrupt\<close>) is not an outcome of
  the model.
\<close>

datatype error_class =
    DefinitionError
  | ConfigurationError
  | TypeInferenceError
  | SettingsCycleError
  | OverlapError
  | LegalizationCycleError
  | UnencodableError
  | OtherError

datatype exn =
    SystemExit nat
  | Raised error_class string


subsection \<open>The command line\<close>

text \<open>
  What the script declares to \<^verbatim>\<open>argparse\<close>: a parser with a description, and the
  arguments added to it with \<^verbatim>\<open>add_argument\<close>. Neither \<^verbatim>\<open>default=\<close> nor \<^verbatim>\<open>required=\<close> is
  given in the script, so they have Python's defaults \<^verbatim>\<open>None\<close> and \<^verbatim>\<open>False\<close>. Nor is
  \<^verbatim>\<open>add_help=\<close> given to the constructor: it is \<^verbatim>\<open>True\<close>, and the parser has the option
  \<^verbatim>\<open>-h\<close>/\<^verbatim>\<open>--help\<close> besides the arguments the script adds.
\<close>

record argument =
  arg_flag :: string
  arg_help :: string
  arg_default :: "string option"
  arg_required :: bool

record parser =
  description :: string
  add_help :: bool
  arguments :: "argument list"

definition ArgumentParser :: "string \<Rightarrow> parser" where
  "ArgumentParser d = \<lparr>description = d, add_help = True, arguments = []\<rparr>"

definition add_argument :: "string \<Rightarrow> string \<Rightarrow> parser \<Rightarrow> parser" where
  "add_argument f h p =
     p\<lparr>arguments := arguments p @ [\<lparr>arg_flag = f, arg_help = h, arg_default = None, arg_required = False\<rparr>]\<rparr>"

definition parser :: parser where
  "parser = add_argument ''--out-dir'' ''set output directory''
              (ArgumentParser ''Generate sources for Cretonne.'')"

text \<open>The namespace \<^verbatim>\<open>parse_args\<close> returns has the one attribute the script reads.\<close>

record namespace =
  out_dir :: "string option"

text \<open>The options of a parser, each with its spellings: the help option, then the declared ones.\<close>

definition help_flags :: "parser \<Rightarrow> string list" where
  "help_flags p = (if add_help p then [''-h'', ''--help''] else [])"

definition option_strings :: "parser \<Rightarrow> string list list" where
  "option_strings p =
     (if add_help p then [help_flags p] else []) @ map (\<lambda>a. [arg_flag a]) (arguments p)"

text \<open>
  What \<^verbatim>\<open>parse_args\<close> of Python's \<^verbatim>\<open>argparse\<close> answers, for a parser with one declared long
  option that takes one value and is not required, on the command lines made of three kinds
  of words: a plain word (empty, or not starting with a dash), which \<^verbatim>\<open>argparse\<close> never
  takes for an option; an option of the parser spelled in full; and an unknown long option
  (two dashes, no \<^verbatim>\<open>=\<close>, no blank, and not the beginning of any option of the parser, so
  that it is no abbreviation). On any other parser or command line the model gives no
  answer (\<open>None\<close>): abbreviations, \<^verbatim>\<open>--flag=value\<close>, \<^verbatim>\<open>--\<close> and single-dash words are not
  modelled.

  The library reads the words from left to right. The help option prints the help and
  ends the process with code 0 at once. The declared option takes the next word as its
  value when that is a plain word, and is a usage error otherwise. A word that is neither
  is kept aside as unrecognized, and makes the command line a usage error when the end is
  reached. A usage error ends the process with code 2.
\<close>

definition plain_word :: "string \<Rightarrow> bool" where
  "plain_word t = (case t of [] \<Rightarrow> True | c # _ \<Rightarrow> c \<noteq> CHR ''-'')"

definition unknown_long_option :: "parser \<Rightarrow> string \<Rightarrow> bool" where
  "unknown_long_option p t =
     (take 2 t = ''--'' \<and> t \<noteq> ''--'' \<and> CHR ''='' \<notin> set t \<and> CHR '' '' \<notin> set t
      \<and> list_all (\<lambda>f. take (length t) f \<noteq> t) (concat (option_strings p)))"

definition modelled :: "parser \<Rightarrow> string list \<Rightarrow> bool" where
  "modelled p argv =
     list_all (\<lambda>t. plain_word t \<or> t \<in> set (concat (option_strings p)) \<or> unknown_long_option p t)
       argv"

fun scan :: "parser \<Rightarrow> argument \<Rightarrow> namespace \<Rightarrow> bool \<Rightarrow> string list \<Rightarrow> exn + namespace" where
  "scan p a ns unrecognized [] = (if unrecognized then Inl (SystemExit 2) else Inr ns)"
| "scan p a ns unrecognized (t # ts) =
     (if t \<in> set (help_flags p) then Inl (SystemExit 0)
      else if t = arg_flag a then
        (case ts of
           [] \<Rightarrow> Inl (SystemExit 2)
         | v # rest \<Rightarrow>
             if plain_word v then scan p a (ns\<lparr>out_dir := Some v\<rparr>) unrecognized rest
             else Inl (SystemExit 2))
      else scan p a ns True ts)"

definition parse_args_model :: "parser \<Rightarrow> string list \<Rightarrow> (exn + namespace) option" where
  "parse_args_model p argv =
     (case arguments p of
        [a] \<Rightarrow>
          if take 2 (arg_flag a) = ''--'' \<and> arg_flag a \<notin> set (help_flags p)
             \<and> \<not> arg_required a \<and> modelled p argv
          then Some (scan p a \<lparr>out_dir = arg_default a\<rparr> False argv)
          else None
      | _ \<Rightarrow> None)"


subsection \<open>The imported modules\<close>

text \<open>
  A call of an imported function acts on the world: it returns a value or raises, and
  leaves a world either way. The fields of the record are the functions the script calls,
  each with the parameters of its call in the script: \<^verbatim>\<open>parser.parse_args()\<close>, which reads the
  command line against the declared parser (what it prints is not part of the world),
  \<^verbatim>\<open>isa.all_isas()\<close>, the four generators that take the output directory, three of them
  after the ISA list, and \<^verbatim>\<open>gen_build_deps.generate()\<close>.
\<close>

type_synonym ('a, 'w) action = "'w \<Rightarrow> (exn + 'a) \<times> 'w"

record ('isas, 'w) modules =
  parse_args :: "parser \<Rightarrow> string list \<Rightarrow> exn + namespace"
  isa_all_isas :: "('isas, 'w) action"
  gen_types_generate :: "string option \<Rightarrow> (unit, 'w) action"
  gen_instr_generate :: "'isas \<Rightarrow> string option \<Rightarrow> (unit, 'w) action"
  gen_settings_generate :: "'isas \<Rightarrow> string option \<Rightarrow> (unit, 'w) action"
  gen_encoding_generate :: "'isas \<Rightarrow> string option \<Rightarrow> (unit, 'w) action"
  gen_build_deps_generate :: "(unit, 'w) action"

subsection \<open>Runs\<close>

text \<open>
  A run carries the world and a trace of what the script did: each call it makes with the
  arguments of the call as written in the script, and how the call ended.
\<close>

datatype stage =
    Isa_Registry
  | Gen_Types
  | Gen_Instr
  | Gen_Settings
  | Gen_Encoding
  | Gen_Build_Deps

datatype 'isas arg =
    Isas 'isas
  | Out_Dir "string option"

datatype 'isas event =
    Call stage "'isas arg list"
  | Return stage
  | Raise stage exn

record ('isas, 'w) run =
  world :: 'w
  trace :: "'isas event list"

definition invoke ::
  "stage \<Rightarrow> 'isas arg list \<Rightarrow> ('a, 'w) action \<Rightarrow> ('a, ('isas, 'w) run) action" where
  "invoke st args f r =
     (case f (world r) of
        (Inl e, w') \<Rightarrow> (Inl e, \<lparr>world = w', trace = trace r @ [Call st args, Raise st e]\<rparr>)
      | (Inr a, w') \<Rightarrow> (Inr a, \<lparr>world = w', trace = trace r @ [Call st args, Return st]\<rparr>))"

text \<open>
  Statements run in sequence; the script has no \<^verbatim>\<open>try\<close>, so an exception ends it where it is
  raised.
\<close>

definition and_then :: "('a, 's) action \<Rightarrow> ('a \<Rightarrow> ('b, 's) action) \<Rightarrow> ('b, 's) action" where
  "and_then m k s = (case m s of (Inl e, s') \<Rightarrow> (Inl e, s') | (Inr a, s') \<Rightarrow> k a s')"

text \<open>
  The six calls of the script, from \<^verbatim>\<open>isas = isa.all_isas()\<close> to \<^verbatim>\<open>gen_build_deps.generate()\<close>;
  \<open>od\<close> is the script's variable \<^verbatim>\<open>out_dir\<close>. The values the generators return are dropped.
\<close>

definition stages :: "('isas, 'w) modules \<Rightarrow> string option \<Rightarrow> (unit, ('isas, 'w) run) action" where
  "stages m od =
     and_then (invoke Isa_Registry [] (isa_all_isas m)) (\<lambda>isas.
     and_then (invoke Gen_Types [Out_Dir od] (gen_types_generate m od)) (\<lambda>_.
     and_then (invoke Gen_Instr [Isas isas, Out_Dir od] (gen_instr_generate m isas od)) (\<lambda>_.
     and_then (invoke Gen_Settings [Isas isas, Out_Dir od] (gen_settings_generate m isas od)) (\<lambda>_.
     and_then (invoke Gen_Encoding [Isas isas, Out_Dir od] (gen_encoding_generate m isas od)) (\<lambda>_.
     invoke Gen_Build_Deps [] (gen_build_deps_generate m))))))"

text \<open>
  The whole script, run on the command line \<open>argv\<close> in the world \<open>w\<close>: \<^verbatim>\<open>parse_args\<close> either ends
  the process or answers the namespace, whose \<^verbatim>\<open>out_dir\<close> is read, unchecked, and handed on.
\<close>

definition build ::
  "('isas, 'w) modules \<Rightarrow> string list \<Rightarrow> 'w \<Rightarrow> (exn + unit) \<times> ('isas, 'w) run" where
  "build m argv w =
     (case parse_args m parser argv of
        Inl e \<Rightarrow> (Inl e, \<lparr>world = w, trace = []\<rparr>)
      | Inr args \<Rightarrow> stages m (out_dir args) \<lparr>world = w, trace = []\<rparr>)"

subsection \<open>Reading a trace\<close>


fun calls :: "'isas event list \<Rightarrow> (stage \<times> 'isas arg list) list" where
  "calls [] = []"
| "calls (Call s args # es) = (s, args) # calls es"
| "calls (_ # es) = calls es"










subsection \<open>The stages as the specification describes them\<close>

text \<open>
  Modelled from the spec: the ISA Registry (section 4.2); the function \<^verbatim>\<open>isa.all_isas\<close> is
  called by the script and its body is not in the sources. It "exposes the ordered list of
  target ISA identifiers" and "fails with a ConfigurationError if the declared ISA list is
  empty or contains duplicate identifiers". The error names the offending identifier.
\<close>

fun first_duplicate :: "string list \<Rightarrow> string option" where
  "first_duplicate [] = None"
| "first_duplicate (x # xs) = (if x \<in> set xs then Some x else first_duplicate xs)"

definition all_isas :: "string list \<Rightarrow> exn + string list" where
  "all_isas declared =
     (if declared = [] then Inl (Raised ConfigurationError [])
      else case first_duplicate declared of
             Some i \<Rightarrow> Inl (Raised ConfigurationError i)
           | None \<Rightarrow> Inr declared)"

text \<open>
  Modelled from the spec: the declarative input in its resolved form (section 6) and the
  generators (sections 4 and 7), whose bodies (\<^verbatim>\<open>gen_*.generate\<close>) are not in the
  sources. Every stage "validates its own invariants before returning its table", so a
  table of the input is either the error its validation raises or its serialization; a
  stage that succeeds emits "a complete, internally validated serialization" as one
  artifact of the output sink, under the output directory it was given. The sink maps an
  output directory and an artifact's name to the artifact's bytes.
\<close>

type_synonym sink = "string option \<times> string \<Rightarrow> string option"

record definitions =
  declared_isas :: "string list"
  type_catalog :: "exn + string"
  instruction_table :: "string list \<Rightarrow> exn + string"
  settings_table :: "string list \<Rightarrow> exn + string"
  encoding_table :: "string list \<Rightarrow> exn + string"
  dependency_manifest :: "exn + string"

definition emit :: "string \<Rightarrow> exn + string \<Rightarrow> string option \<Rightarrow> (unit, sink) action" where
  "emit name table dir s =
     (case table of
        Inl e \<Rightarrow> (Inl e, s)
      | Inr bytes \<Rightarrow> (Inr (), s((dir, name) \<mapsto> bytes)))"

definition spec_modules ::
  "(parser \<Rightarrow> string list \<Rightarrow> exn + namespace) \<Rightarrow> definitions \<Rightarrow> (string list, sink) modules" where
  "spec_modules pa d =
     \<lparr>parse_args = pa,
      isa_all_isas = (\<lambda>s. (all_isas (declared_isas d), s)),
      gen_types_generate = emit ''types'' (type_catalog d),
      gen_instr_generate = (\<lambda>isas. emit ''instructions'' (instruction_table d isas)),
      gen_settings_generate = (\<lambda>isas. emit ''settings'' (settings_table d isas)),
      gen_encoding_generate = (\<lambda>isas. emit ''encodings'' (encoding_table d isas)),
      gen_build_deps_generate = emit ''build-deps'' (dependency_manifest d) None\<rparr>"

subsection \<open>A sample run\<close>

text \<open>
  The library on the sample command lines: \<^verbatim>\<open>parse_args\<close> as modelled above; a command line
  outside the model is answered as a usage error.
\<close>

definition sample_parse_args :: "parser \<Rightarrow> string list \<Rightarrow> exn + namespace" where
  "sample_parse_args p argv =
     (case parse_args_model p argv of Some r \<Rightarrow> r | None \<Rightarrow> Inl (SystemExit 2))"

definition riscv :: definitions where
  "riscv =
     \<lparr>declared_isas = [''riscv''],
      type_catalog = Inr ''i32 f64'',
      instruction_table = (\<lambda>_. Inr ''iadd''),
      settings_table = (\<lambda>_. Inr ''opt_level''),
      encoding_table = (\<lambda>_. Inr ''R-type''),
      dependency_manifest = Inr ''base.py''\<rparr>"

definition riscv_untyped :: definitions where
  "riscv_untyped = riscv\<lparr>instruction_table := (\<lambda>_. Inl (Raised TypeInferenceError ''iadd''))\<rparr>"

definition sample :: "(string list, sink) modules" where
  "sample = spec_modules sample_parse_args riscv"

definition sample_untyped :: "(string list, sink) modules" where
  "sample_untyped = spec_modules sample_parse_args riscv_untyped"

section \<open>Properties of the driver\<close>

subsection \<open>The eight ways a run can end\<close>

text \<open>
  One call, followed by the rest of the script: the call raises and the script ends, or it
  returns and the script goes on.
\<close>

lemma invoke_raises:
  "f (world r) = (Inl e, w') \<Longrightarrow>
   and_then (invoke st args f) k r =
     (Inl e, \<lparr>world = w', trace = trace r @ [Call st args, Raise st e]\<rparr>)"
  by (simp add: and_then_def invoke_def)

lemma invoke_returns:
  "f (world r) = (Inr a, w') \<Longrightarrow>
   and_then (invoke st args f) k r =
     k a \<lparr>world = w', trace = trace r @ [Call st args, Return st]\<rparr>"
  by (simp add: and_then_def invoke_def)

lemma invoke_last:
  "f (world r) = (x, w') \<Longrightarrow>
   invoke st args f r =
     (x, \<lparr>world = w', trace = trace r @
        [Call st args, (case x of Inl e \<Rightarrow> Raise st e | Inr _ \<Rightarrow> Return st)]\<rparr>)"
  by (cases x) (simp_all add: invoke_def)

lemma outcome_cases:
  obtains e w' where "p = (Inl e, w')" | a w' where "p = (Inr a, w')"
  by (cases p; cases "fst p") auto

lemma build_cases:
  obtains
    (usage) e where "parse_args m parser argv = Inl e"
      and "build m argv w = (Inl e, \<lparr>world = w, trace = []\<rparr>)"
  | (isa_fails) ns e w1 where "parse_args m parser argv = Inr ns"
      and "isa_all_isas m w = (Inl e, w1)"
      and "build m argv w =
           (Inl e, \<lparr>world = w1, trace =
             [Call Isa_Registry [],
              Raise Isa_Registry e]\<rparr>)"
  | (types_fails) ns isas w1 e w2 where "parse_args m parser argv = Inr ns"
      and "isa_all_isas m w = (Inr isas, w1)"
      and "gen_types_generate m (out_dir ns) w1 = (Inl e, w2)"
      and "build m argv w =
           (Inl e, \<lparr>world = w2, trace =
             [Call Isa_Registry [],
              Return Isa_Registry,
              Call Gen_Types [Out_Dir (out_dir ns)],
              Raise Gen_Types e]\<rparr>)"
  | (instr_fails) ns isas w1 w2 e w3 where "parse_args m parser argv = Inr ns"
      and "isa_all_isas m w = (Inr isas, w1)"
      and "gen_types_generate m (out_dir ns) w1 = (Inr (), w2)"
      and "gen_instr_generate m isas (out_dir ns) w2 = (Inl e, w3)"
      and "build m argv w =
           (Inl e, \<lparr>world = w3, trace =
             [Call Isa_Registry [],
              Return Isa_Registry,
              Call Gen_Types [Out_Dir (out_dir ns)],
              Return Gen_Types,
              Call Gen_Instr [Isas isas, Out_Dir (out_dir ns)],
              Raise Gen_Instr e]\<rparr>)"
  | (settings_fails) ns isas w1 w2 w3 e w4 where "parse_args m parser argv = Inr ns"
      and "isa_all_isas m w = (Inr isas, w1)"
      and "gen_types_generate m (out_dir ns) w1 = (Inr (), w2)"
      and "gen_instr_generate m isas (out_dir ns) w2 = (Inr (), w3)"
      and "gen_settings_generate m isas (out_dir ns) w3 = (Inl e, w4)"
      and "build m argv w =
           (Inl e, \<lparr>world = w4, trace =
             [Call Isa_Registry [],
              Return Isa_Registry,
              Call Gen_Types [Out_Dir (out_dir ns)],
              Return Gen_Types,
              Call Gen_Instr [Isas isas, Out_Dir (out_dir ns)],
              Return Gen_Instr,
              Call Gen_Settings [Isas isas, Out_Dir (out_dir ns)],
              Raise Gen_Settings e]\<rparr>)"
  | (encoding_fails) ns isas w1 w2 w3 w4 e w5 where "parse_args m parser argv = Inr ns"
      and "isa_all_isas m w = (Inr isas, w1)"
      and "gen_types_generate m (out_dir ns) w1 = (Inr (), w2)"
      and "gen_instr_generate m isas (out_dir ns) w2 = (Inr (), w3)"
      and "gen_settings_generate m isas (out_dir ns) w3 = (Inr (), w4)"
      and "gen_encoding_generate m isas (out_dir ns) w4 = (Inl e, w5)"
      and "build m argv w =
           (Inl e, \<lparr>world = w5, trace =
             [Call Isa_Registry [],
              Return Isa_Registry,
              Call Gen_Types [Out_Dir (out_dir ns)],
              Return Gen_Types,
              Call Gen_Instr [Isas isas, Out_Dir (out_dir ns)],
              Return Gen_Instr,
              Call Gen_Settings [Isas isas, Out_Dir (out_dir ns)],
              Return Gen_Settings,
              Call Gen_Encoding [Isas isas, Out_Dir (out_dir ns)],
              Raise Gen_Encoding e]\<rparr>)"
  | (deps_fails) ns isas w1 w2 w3 w4 w5 e w6 where "parse_args m parser argv = Inr ns"
      and "isa_all_isas m w = (Inr isas, w1)"
      and "gen_types_generate m (out_dir ns) w1 = (Inr (), w2)"
      and "gen_instr_generate m isas (out_dir ns) w2 = (Inr (), w3)"
      and "gen_settings_generate m isas (out_dir ns) w3 = (Inr (), w4)"
      and "gen_encoding_generate m isas (out_dir ns) w4 = (Inr (), w5)"
      and "gen_build_deps_generate m w5 = (Inl e, w6)"
      and "build m argv w =
           (Inl e, \<lparr>world = w6, trace =
             [Call Isa_Registry [],
              Return Isa_Registry,
              Call Gen_Types [Out_Dir (out_dir ns)],
              Return Gen_Types,
              Call Gen_Instr [Isas isas, Out_Dir (out_dir ns)],
              Return Gen_Instr,
              Call Gen_Settings [Isas isas, Out_Dir (out_dir ns)],
              Return Gen_Settings,
              Call Gen_Encoding [Isas isas, Out_Dir (out_dir ns)],
              Return Gen_Encoding,
              Call Gen_Build_Deps [],
              Raise Gen_Build_Deps e]\<rparr>)"
  | (completes) ns isas w1 w2 w3 w4 w5 w6 where "parse_args m parser argv = Inr ns"
      and "isa_all_isas m w = (Inr isas, w1)"
      and "gen_types_generate m (out_dir ns) w1 = (Inr (), w2)"
      and "gen_instr_generate m isas (out_dir ns) w2 = (Inr (), w3)"
      and "gen_settings_generate m isas (out_dir ns) w3 = (Inr (), w4)"
      and "gen_encoding_generate m isas (out_dir ns) w4 = (Inr (), w5)"
      and "gen_build_deps_generate m w5 = (Inr (), w6)"
      and "build m argv w =
           (Inr (), \<lparr>world = w6, trace =
             [Call Isa_Registry [],
              Return Isa_Registry,
              Call Gen_Types [Out_Dir (out_dir ns)],
              Return Gen_Types,
              Call Gen_Instr [Isas isas, Out_Dir (out_dir ns)],
              Return Gen_Instr,
              Call Gen_Settings [Isas isas, Out_Dir (out_dir ns)],
              Return Gen_Settings,
              Call Gen_Encoding [Isas isas, Out_Dir (out_dir ns)],
              Return Gen_Encoding,
              Call Gen_Build_Deps [],
              Return Gen_Build_Deps]\<rparr>)"
proof (cases "parse_args m parser argv")
  case (Inl e)
  then show ?thesis
    using usage by (simp add: build_def)
next
  case ns: (Inr ns)
  show ?thesis
  proof (cases "isa_all_isas m w" rule: outcome_cases)
    case (1 e w1)
    with ns show ?thesis
      using isa_fails by (simp add: build_def stages_def invoke_raises)
  next
    case r1: (2 isas w1)
    show ?thesis
    proof (cases "gen_types_generate m (out_dir ns) w1" rule: outcome_cases)
      case (1 e w2)
      with ns r1 show ?thesis
        using types_fails by (simp add: build_def stages_def invoke_raises invoke_returns)
    next
      case r2: (2 u2 w2)
      show ?thesis
      proof (cases "gen_instr_generate m isas (out_dir ns) w2" rule: outcome_cases)
        case (1 e w3)
        with ns r1 r2 show ?thesis
          using instr_fails by (simp add: build_def stages_def invoke_raises invoke_returns)
      next
        case r3: (2 u3 w3)
        show ?thesis
        proof (cases "gen_settings_generate m isas (out_dir ns) w3" rule: outcome_cases)
          case (1 e w4)
          with ns r1 r2 r3 show ?thesis
            using settings_fails by (simp add: build_def stages_def invoke_raises invoke_returns)
        next
          case r4: (2 u4 w4)
          show ?thesis
          proof (cases "gen_encoding_generate m isas (out_dir ns) w4" rule: outcome_cases)
            case (1 e w5)
            with ns r1 r2 r3 r4 show ?thesis
              using encoding_fails by (simp add: build_def stages_def invoke_raises invoke_returns)
          next
            case r5: (2 u5 w5)
            show ?thesis
            proof (cases "gen_build_deps_generate m w5" rule: outcome_cases)
              case (1 e w6)
              with ns r1 r2 r3 r4 r5 show ?thesis
                using deps_fails by (simp add: build_def stages_def invoke_returns invoke_last)
            next
              case (2 u6 w6)
              with ns r1 r2 r3 r4 r5 show ?thesis
                using completes by (simp add: build_def stages_def invoke_returns invoke_last)
            qed
          qed
        qed
      qed
    qed
  qed
qed


subsection \<open>The sample runs, evaluated\<close>

lemmas sample_defs =
  build_def stages_def and_then_def invoke_def sample_def sample_untyped_def spec_modules_def
  sample_parse_args_def parse_args_model_def modelled_def unknown_long_option_def
  plain_word_def option_strings_def help_flags_def parser_def add_argument_def
  ArgumentParser_def emit_def riscv_def riscv_untyped_def all_isas_def




lemma first_duplicate_None: "first_duplicate xs = None \<longleftrightarrow> distinct xs"
  by (induction xs) auto

subsection \<open>The order of the stages\<close>



subsection \<open>What a failure leaves in the output sink\<close>




subsection \<open>Who receives the ISA list\<close>




subsection \<open>The first error ends the run\<close>



subsection \<open>The ISA Registry\<close>

text \<open>
  C5. Resolving the ISA Registry fails with a ConfigurationError when the declared list
  of ISAs is empty or holds an identifier twice; otherwise it returns the declared
  identifiers, in their order.
\<close>

theorem all_isas_configuration_error:
  "(declared = [] \<or> \<not> distinct declared
      \<longrightarrow> (\<exists>offender. all_isas declared = Inl (Raised ConfigurationError offender)))
   \<and> (declared \<noteq> [] \<and> distinct declared \<longrightarrow> all_isas declared = Inr declared)"
  using first_duplicate_None [of declared]
  by (cases "first_duplicate declared") (auto simp add: all_isas_def)

theorem all_isas_configuration_error_witness:
  "distinct [''riscv'', ''intel'']
   \<and> all_isas [''riscv'', ''intel''] = Inr [''riscv'', ''intel'']
   \<and> (\<exists>offender. all_isas [] = Inl (Raised ConfigurationError offender))
   \<and> \<not> distinct [''riscv'', ''intel'', ''riscv'']
   \<and> (\<exists>offender. all_isas [''riscv'', ''intel'', ''riscv''] =
         Inl (Raised ConfigurationError offender))"
  using all_isas_configuration_error [of "[''riscv'', ''intel'']"]
    all_isas_configuration_error [of "[]"]
    all_isas_configuration_error [of "[''riscv'', ''intel'', ''riscv'']"]
  by simp

subsection \<open>The command line and the exit status\<close>









subsection \<open>The arguments of the calls\<close>

text \<open>
  C8. The Build-Dependency Emitter is called with no argument at all. In a run whose
  five earlier stages have returned, leaving the world \<open>w5\<close>, the one call of the emitter
  carries an empty argument list, and the outcome of the run and the world it leaves are
  those of \<^verbatim>\<open>gen_build_deps.generate()\<close> on \<open>w5\<close>: neither the output directory nor the ISA
  list is handed to it.
\<close>

theorem build_deps_called_without_arguments:
  assumes "parse_args m parser argv = Inr ns"
    and "isa_all_isas m w = (Inr isas, w1)"
    and "gen_types_generate m (out_dir ns) w1 = (Inr (), w2)"
    and "gen_instr_generate m isas (out_dir ns) w2 = (Inr (), w3)"
    and "gen_settings_generate m isas (out_dir ns) w3 = (Inr (), w4)"
    and "gen_encoding_generate m isas (out_dir ns) w4 = (Inr (), w5)"
  shows "filter (\<lambda>c. fst c = Gen_Build_Deps) (calls (trace (snd (build m argv w))))
           = [(Gen_Build_Deps, [])]
    \<and> fst (build m argv w) = fst (gen_build_deps_generate m w5)
    \<and> world (snd (build m argv w)) = snd (gen_build_deps_generate m w5)"
  using assms by (cases rule: build_cases [of m argv w]) auto

theorem build_deps_called_without_arguments_witness:
  "parse_args sample parser [''--out-dir'', ''gen''] = Inr \<lparr>out_dir = Some ''gen''\<rparr>
   \<and> isa_all_isas sample Map.empty = (Inr [''riscv''], Map.empty)
   \<and> gen_types_generate sample (Some ''gen'') Map.empty =
       (Inr (), [(Some ''gen'', ''types'') \<mapsto> ''i32 f64''])
   \<and> gen_instr_generate sample [''riscv''] (Some ''gen'')
         [(Some ''gen'', ''types'') \<mapsto> ''i32 f64''] =
       (Inr (), [(Some ''gen'', ''types'') \<mapsto> ''i32 f64'',
                 (Some ''gen'', ''instructions'') \<mapsto> ''iadd''])
   \<and> gen_settings_generate sample [''riscv''] (Some ''gen'')
         [(Some ''gen'', ''types'') \<mapsto> ''i32 f64'',
          (Some ''gen'', ''instructions'') \<mapsto> ''iadd''] =
       (Inr (), [(Some ''gen'', ''types'') \<mapsto> ''i32 f64'',
                 (Some ''gen'', ''instructions'') \<mapsto> ''iadd'',
                 (Some ''gen'', ''settings'') \<mapsto> ''opt_level''])
   \<and> gen_encoding_generate sample [''riscv''] (Some ''gen'')
         [(Some ''gen'', ''types'') \<mapsto> ''i32 f64'',
          (Some ''gen'', ''instructions'') \<mapsto> ''iadd'',
          (Some ''gen'', ''settings'') \<mapsto> ''opt_level''] =
       (Inr (), [(Some ''gen'', ''types'') \<mapsto> ''i32 f64'',
                 (Some ''gen'', ''instructions'') \<mapsto> ''iadd'',
                 (Some ''gen'', ''settings'') \<mapsto> ''opt_level'',
                 (Some ''gen'', ''encodings'') \<mapsto> ''R-type''])
   \<and> filter (\<lambda>c. fst c = Gen_Build_Deps)
         (calls (trace (snd (build sample [''--out-dir'', ''gen''] Map.empty))))
       = [(Gen_Build_Deps, [])]
   \<and> fst (build sample [''--out-dir'', ''gen''] Map.empty) =
       fst (gen_build_deps_generate sample
         [(Some ''gen'', ''types'') \<mapsto> ''i32 f64'',
          (Some ''gen'', ''instructions'') \<mapsto> ''iadd'',
          (Some ''gen'', ''settings'') \<mapsto> ''opt_level'',
          (Some ''gen'', ''encodings'') \<mapsto> ''R-type''])"
proof -
  have p: "parse_args sample parser [''--out-dir'', ''gen''] = Inr \<lparr>out_dir = Some ''gen''\<rparr>"
    by (simp add: sample_defs)
  have r1: "isa_all_isas sample Map.empty = (Inr [''riscv''], Map.empty)"
    by (simp add: sample_defs)
  have r2: "gen_types_generate sample (out_dir \<lparr>out_dir = Some ''gen''\<rparr>) Map.empty =
       (Inr (), [(Some ''gen'', ''types'') \<mapsto> ''i32 f64''])"
    by (simp add: sample_defs)
  have r3: "gen_instr_generate sample [''riscv''] (out_dir \<lparr>out_dir = Some ''gen''\<rparr>)
         [(Some ''gen'', ''types'') \<mapsto> ''i32 f64''] =
       (Inr (), [(Some ''gen'', ''types'') \<mapsto> ''i32 f64'',
                 (Some ''gen'', ''instructions'') \<mapsto> ''iadd''])"
    by (simp add: sample_defs)
  have r4: "gen_settings_generate sample [''riscv''] (out_dir \<lparr>out_dir = Some ''gen''\<rparr>)
         [(Some ''gen'', ''types'') \<mapsto> ''i32 f64'',
          (Some ''gen'', ''instructions'') \<mapsto> ''iadd''] =
       (Inr (), [(Some ''gen'', ''types'') \<mapsto> ''i32 f64'',
                 (Some ''gen'', ''instructions'') \<mapsto> ''iadd'',
                 (Some ''gen'', ''settings'') \<mapsto> ''opt_level''])"
    by (simp add: sample_defs)
  have r5: "gen_encoding_generate sample [''riscv''] (out_dir \<lparr>out_dir = Some ''gen''\<rparr>)
         [(Some ''gen'', ''types'') \<mapsto> ''i32 f64'',
          (Some ''gen'', ''instructions'') \<mapsto> ''iadd'',
          (Some ''gen'', ''settings'') \<mapsto> ''opt_level''] =
       (Inr (), [(Some ''gen'', ''types'') \<mapsto> ''i32 f64'',
                 (Some ''gen'', ''instructions'') \<mapsto> ''iadd'',
                 (Some ''gen'', ''settings'') \<mapsto> ''opt_level'',
                 (Some ''gen'', ''encodings'') \<mapsto> ''R-type''])"
    by (simp add: sample_defs)
  from build_deps_called_without_arguments [OF p r1 r2 r3 r4 r5] p r1 r2 r3 r4 r5
  show ?thesis by simp
qed





end
